theory Spec2Isabelle
  imports Main "HOL-Library.AList"
begin

section \<open>Data model of server/index.ts\<close>

text \<open>
  A JavaScript \<^verbatim>\<open>Map\<close> and a Yjs \<^verbatim>\<open>Y.Map\<close> are association lists with distinct keys,
  in insertion order: \<^verbatim>\<open>get\<close> is \<^const>\<open>map_of\<close>, \<^verbatim>\<open>set\<close> is \<^const>\<open>AList.update\<close>
  (in place for a key already there, at the end for a new one), \<^verbatim>\<open>delete\<close> is
  \<^const>\<open>AList.delete\<close>, \<^verbatim>\<open>size\<close> is the length and \<^verbatim>\<open>forEach\<close> a fold from the left.
\<close>

type_synonym ('k, 'v) jsmap = "('k \<times> 'v) list"

text \<open>The permission record \<^verbatim>\<open>Share\<close> (src/@types/Share), with the fields the server writes.\<close>

record Share =
  accessed :: nat
  created :: nat
  name :: string
  role :: string

text \<open>
  An \<^verbatim>\<open>Error\<close> with its message, and the \<^verbatim>\<open>TypeError\<close> that reading a property of
  \<^verbatim>\<open>null\<close> throws.
\<close>

datatype error = Error string | TypeError

text \<open>What \<^verbatim>\<open>parseDocumentName\<close> returns, as far as the server reads it.\<close>

record docname_parts =
  tsid :: string
  type :: string

text \<open>
  The module data-providers/yjs/documentNameEncoder and the JavaScript \<^verbatim>\<open>Date\<close> are not
  among the sources. Their functions, and the configured database directory
  (\<^verbatim>\<open>process.env.DB_DIR || 'db'\<close>), are parameters of the model, applied where the source
  applies them. Nothing is assumed of the tenant id that \<^verbatim>\<open>parseDocumentName\<close> returns.
\<close>

record env =
  parseDocumentName :: "string \<Rightarrow> docname_parts"
  encodeThoughtDocumentName :: "string \<Rightarrow> string \<Rightarrow> string"
  encodeLexemeDocumentName :: "string \<Rightarrow> string \<Rightarrow> string"
  encodePermissionsDocumentName :: "string \<Rightarrow> string"
  toISOString :: "nat \<Rightarrow> string"
  dbDir :: string

text \<open>The session context \<^verbatim>\<open>{ token }\<close> that \<^verbatim>\<open>onAuthenticate\<close> passes to the later hooks.\<close>

record session_context =
  token :: string

text \<open>
  A store handle: a \<^verbatim>\<open>LeveldbPersistence\<close> or \<^verbatim>\<open>level\<close> object. Each construction yields
  a new object (\<open>hid\<close>) over the directory of the path it was given (\<open>location\<close>).
\<close>

record handle =
  hid :: nat
  location :: string

text \<open>
  The state of a Yjs document bound to a store is the set of facts (inserted structs and
  deletion marks, each with its own identity) it has integrated; an update is a set of
  facts and merging is union. \<open>subscribers\<close> are the \<^verbatim>\<open>'update'\<close> handlers installed by
  \<^verbatim>\<open>bindState\<close>, each the pair of store and document name its closure captured;
  \<open>controllers\<close> are the replication controllers attached to the document, each the
  (tsid, documentName) its \<^verbatim>\<open>next\<close> closure captured.
\<close>

type_synonym update = "nat set"

record ydoc =
  ystate :: update
  subscribers :: "(handle \<times> string) list"
  controllers :: "(string \<times> string) list"
  destroyed :: bool

text \<open>
  A permissions document served to a client, in the view the server uses: its default
  shared map, and the observers installed on that map, each the tsid whose server-side map
  its closure captured.
\<close>

record permdoc =
  clientMap :: "(string, Share) jsmap"
  observers :: "string list"

text \<open>
  The module state and its environment: the permission maps of \<^verbatim>\<open>permissionsServerDoc\<close> by
  tsid (\<^verbatim>\<open>getMap(tsid)\<close> of a name never used is the empty map), \<^verbatim>\<open>server.documents\<close>, the
  three registries, the data on disk by directory and document name, the handles that are
  open, the counter naming the next handle, the console and the clock.
\<close>

record world =
  permissionsServerDoc :: "string \<Rightarrow> (string, Share) jsmap"
  documents :: "(string, permdoc) jsmap"
  ldbThoughtspaces :: "(string, handle) jsmap"
  ldbDoclogs :: "(string, handle) jsmap"
  ldbReplicationCursors :: "(string, handle) jsmap"
  disk :: "string \<Rightarrow> string \<Rightarrow> update list"
  open_handles :: "handle set"
  next_hid :: nat
  console :: "(string \<times> string list) list"
  now :: nat

section \<open>Helpers\<close>

text \<open>
  Modelled from the spec: \<^verbatim>\<open>timestamp()\<close> (src/util/timestamp) is not among the sources; it
  gives the current time.
\<close>

definition timestamp :: "world \<Rightarrow> nat" where
  "timestamp w = now w"

definition mask :: "string \<Rightarrow> string" where
  "mask s = take 4 s @ ''...''"

definition gray :: "string \<Rightarrow> string" where
  "gray s = [CHR 0x1B] @ ''[90m'' @ s @ [CHR 0x1B] @ ''[0m''"

text \<open>\<^verbatim>\<open>log(...args)\<close> with string arguments: the method stays \<^verbatim>\<open>info\<close>.\<close>

definition log :: "env \<Rightarrow> string list \<Rightarrow> world \<Rightarrow> world" where
  "log e args w = w\<lparr>console := console w @ [(''info'', gray (toISOString e (now w)) # args)]\<rparr>"

definition console_error :: "string list \<Rightarrow> world \<Rightarrow> world" where
  "console_error args w = w\<lparr>console := console w @ [(''error'', args)]\<rparr>"

definition console_warn :: "string list \<Rightarrow> world \<Rightarrow> world" where
  "console_warn args w = w\<lparr>console := console w @ [(''warn'', args)]\<rparr>"

section \<open>onAuthenticate\<close>

definition onAuthenticate :: "env \<Rightarrow> world \<Rightarrow> string \<Rightarrow> string \<Rightarrow> (error + session_context) \<times> world" where
  "onAuthenticate e w tok documentName =
     (let ts = tsid (parseDocumentName e documentName);
          w1 = (if length (permissionsServerDoc w ts) = 0
                then (let w0 = log e [''assigning owner '' @ mask tok @ '' to new thoughtspace '' @ ts] w
                      in w0\<lparr>permissionsServerDoc := (permissionsServerDoc w0)
                           (ts := AList.update tok
                              \<lparr>accessed = timestamp w0, created = timestamp w0,
                               name = ''Owner'', role = ''owner''\<rparr>
                              (permissionsServerDoc w0 ts))\<rparr>)
                else w)
      in if map_option role (map_of (permissionsServerDoc w1 ts) tok) \<noteq> Some ''owner''
         then (Inl (Error ''Not authorized''), w1)
         else (Inr \<lparr>token = tok\<rparr>, w1))"

section \<open>The persistence layer\<close>

text \<open>
  \<^verbatim>\<open>path.join\<close> of Node on a POSIX system, for two arguments: the arguments that are not
  empty are joined by a separator and the result is normalised. Normalisation drops empty
  segments and \<^verbatim>\<open>.\<close>, and lets \<^verbatim>\<open>..\<close> remove the segment before it.
\<close>

fun split_path :: "string \<Rightarrow> string list" where
  "split_path [] = [[]]"
| "split_path (c # cs) =
     (if c = CHR ''/'' then [] # split_path cs
      else (case split_path cs of [] \<Rightarrow> [[c]] | s # ss \<Rightarrow> (c # s) # ss))"

fun join_segments :: "string list \<Rightarrow> string" where
  "join_segments [] = []"
| "join_segments [s] = s"
| "join_segments (s # t # ss) = s @ ''/'' @ join_segments (t # ss)"

definition normalize_segment :: "bool \<Rightarrow> string list \<Rightarrow> string \<Rightarrow> string list" where
  "normalize_segment allowAboveRoot res seg =
     (if seg = [] \<or> seg = ''.'' then res
      else if seg = ''..''
      then (if res \<noteq> [] \<and> last res \<noteq> ''..'' then butlast res
            else if allowAboveRoot then res @ [''..''] else res)
      else res @ [seg])"

definition normalizeString :: "string \<Rightarrow> bool \<Rightarrow> string" where
  "normalizeString p allowAboveRoot =
     join_segments (fold (\<lambda>seg res. normalize_segment allowAboveRoot res seg) (split_path p) [])"

definition normalize :: "string \<Rightarrow> string" where
  "normalize p =
     (if p = [] then ''.''
      else (let isAbsolute = (hd p = CHR ''/'');
                trailingSeparator = (last p = CHR ''/'');
                q = normalizeString p (\<not> isAbsolute)
            in if q = []
               then (if isAbsolute then ''/'' else if trailingSeparator then ''./'' else ''.'')
               else (if isAbsolute then ''/'' else []) @ q
                      @ (if trailingSeparator then ''/'' else [])))"

definition path_join :: "string \<Rightarrow> string \<Rightarrow> string" where
  "path_join a b =
     (let joined = (if a = [] then b else if b = [] then a else a @ ''/'' @ b)
      in if joined = [] then ''.'' else normalize joined)"

definition thoughtsDbBasePath :: "env \<Rightarrow> string" where
  "thoughtsDbBasePath e = dbDir e @ ''/thoughts''"

definition doclogDbBasePath :: "env \<Rightarrow> string" where
  "doclogDbBasePath e = dbDir e @ ''/doclogs''"

definition replicationCursorDbBasePath :: "env \<Rightarrow> string" where
  "replicationCursorDbBasePath e = dbDir e @ ''/replicationCursor''"

text \<open>
  \<^verbatim>\<open>LeveldbPersistence\<close> (y-leveldb) and \<^verbatim>\<open>level\<close> are libraries. A store keeps, per document
  name, the updates written to its directory; the compaction of a long list of updates,
  which does not change what a read gives, is left out. Opening and closing take effect
  at once.

  LevelDB locks the directory of an open store. \<^verbatim>\<open>new LeveldbPersistence(path)\<close> and
  \<^verbatim>\<open>level(path)\<close> over a directory that an open store holds fail with the lock error of
  LevelDB, which no code of the hook catches: the hook ends there with that error, and no
  store is opened. Directories are compared by their paths.
\<close>

definition new_store :: "string \<Rightarrow> world \<Rightarrow> error + handle \<times> world" where
  "new_store p w =
     (if \<exists>h \<in> open_handles w. location h = p
      then Inl (Error (''IO error: lock '' @ p @ ''/LOCK: already held by process''))
      else (let db = \<lparr>hid = next_hid w, location = p\<rparr>
            in Inr (db, w\<lparr>open_handles := insert db (open_handles w),
                           next_hid := Suc (next_hid w)\<rparr>)))"

text \<open>\<^verbatim>\<open>destroy()\<close> and \<^verbatim>\<open>close()\<close> close the handle and leave the directory as it is.\<close>

definition destroy_store :: "handle \<Rightarrow> world \<Rightarrow> world" where
  "destroy_store db w = w\<lparr>open_handles := open_handles w - {db}\<rparr>"

text \<open>
  Every operation of \<^verbatim>\<open>LeveldbPersistence\<close> runs in a transaction that catches what the
  database throws, writes it with \<^verbatim>\<open>console.warn\<close> and resolves to \<^verbatim>\<open>null\<close>. On a handle
  that has been closed the database throws \<^verbatim>\<open>Database is not open\<close>: the operation does
  nothing, warns and returns normally. The error object is logged by its message.
\<close>

definition transaction_failed :: "world \<Rightarrow> world" where
  "transaction_failed w =
     console_warn [''Error during y-leveldb transaction'', ''Database is not open''] w"

text \<open>\<^verbatim>\<open>db.getYDoc(docName)\<close>: the stored updates merged into one state, or \<^verbatim>\<open>null\<close>.\<close>

definition getYDoc :: "handle \<Rightarrow> string \<Rightarrow> world \<Rightarrow> update option \<times> world" where
  "getYDoc db docName w =
     (if db \<in> open_handles w then (Some (\<Union> (set (disk w (location db) docName))), w)
      else (None, transaction_failed w))"

definition storeUpdate :: "handle \<Rightarrow> string \<Rightarrow> update \<Rightarrow> world \<Rightarrow> world" where
  "storeUpdate db docName u w =
     (if db \<in> open_handles w
      then w\<lparr>disk := (disk w)(location db :=
                (disk w (location db))(docName := disk w (location db) docName @ [u]))\<rparr>
      else transaction_failed w)"

definition clearDocument :: "handle \<Rightarrow> string \<Rightarrow> world \<Rightarrow> world" where
  "clearDocument db docName w =
     (if db \<in> open_handles w
      then w\<lparr>disk := (disk w)(location db := (disk w (location db))(docName := []))\<rparr>
      else transaction_failed w)"

section \<open>Live documents\<close>

text \<open>The \<^verbatim>\<open>'update'\<close> handler of \<^verbatim>\<open>bindState\<close>: \<^verbatim>\<open>db.storeUpdate(docName, update)\<close>.\<close>

definition on_update :: "update \<Rightarrow> handle \<times> string \<Rightarrow> world \<Rightarrow> world" where
  "on_update u sub w = storeUpdate (fst sub) (snd sub) u w"

definition emit_update :: "ydoc \<Rightarrow> update \<Rightarrow> world \<Rightarrow> world" where
  "emit_update d u w = fold (on_update u) (subscribers d) w"

text \<open>
  \<^verbatim>\<open>Y.applyUpdate\<close>, and any edit of a live document: the facts not yet known are
  integrated, and when there are any the handlers receive them as one update.
\<close>

definition applyUpdate :: "ydoc \<Rightarrow> update \<Rightarrow> world \<Rightarrow> ydoc \<times> world" where
  "applyUpdate d u w =
     (if u - ystate d = {} then (d, w)
      else (d\<lparr>ystate := ystate d \<union> u\<rparr>, emit_update d (u - ystate d) w))"

text \<open>\<^verbatim>\<open>doc.destroy()\<close> marks the document destroyed and drops its event handlers.\<close>

definition ydoc_destroy :: "ydoc \<Rightarrow> ydoc" where
  "ydoc_destroy d = d\<lparr>subscribers := [], destroyed := True\<rparr>"

section \<open>bindState\<close>

text \<open>
  When the store gives \<^verbatim>\<open>null\<close> for the persisted document, \<^verbatim>\<open>Y.encodeStateAsUpdate(null)\<close>
  throws a \<^verbatim>\<open>TypeError\<close>: the promise is rejected, nothing is merged and no handler is
  installed.
\<close>

definition bindState :: "handle \<Rightarrow> string \<Rightarrow> ydoc \<Rightarrow> world \<Rightarrow> (error + unit) \<times> ydoc \<times> world" where
  "bindState db docName doc w =
     (let (docPersisted, w0) = getYDoc db docName w;
          updates = ystate doc;
          w1 = storeUpdate db docName updates w0
      in case docPersisted of
           None \<Rightarrow> (Inl TypeError, doc, w1)
         | Some persisted \<Rightarrow>
             (let (doc1, w2) = applyUpdate doc persisted w1
              in (Inr (), doc1\<lparr>subscribers := subscribers doc1 @ [(db, docName)]\<rparr>, w2)))"

section \<open>Permission reconciliation\<close>

text \<open>
  One entry of \<^verbatim>\<open>e.changes.keys\<close> in the observer of the client map: the key and the
  action (\<^verbatim>\<open>'add'\<close>, \<^verbatim>\<open>'update'\<close> or \<^verbatim>\<open>'delete'\<close>). The client map is read as it is when the
  observer runs.
\<close>

definition observe_change ::
  "(string, Share) jsmap \<Rightarrow> string \<times> string \<Rightarrow> (string, Share) jsmap \<Rightarrow> (string, Share) jsmap" where
  "observe_change permissionsClientMap change permissionsServerMap =
     (let key = fst change
      in if snd change = ''delete'' then AList.delete key permissionsServerMap
         else (case map_of permissionsClientMap key of
                 None \<Rightarrow> permissionsServerMap
               | Some clientShare \<Rightarrow>
                   (let serverShare = map_of permissionsServerMap key
                    in if Some (name clientShare) \<noteq> map_option name serverShare
                          \<or> Some (role clientShare) \<noteq> map_option role serverShare
                       then AList.update key clientShare permissionsServerMap
                       else permissionsServerMap)))"

definition observe_callback ::
  "string \<Rightarrow> (string, Share) jsmap \<Rightarrow> (string \<times> string) list \<Rightarrow> world \<Rightarrow> world" where
  "observe_callback ts permissionsClientMap changes w =
     w\<lparr>permissionsServerDoc := (permissionsServerDoc w)
        (ts := fold (observe_change permissionsClientMap) changes (permissionsServerDoc w ts))\<rparr>"

text \<open>
  \<^verbatim>\<open>permissionsClientMap.set(token, permission)\<close>: the entry is written, and the observers
  already installed on the map run with this one change.
\<close>

definition clientMap_set :: "string \<times> Share \<Rightarrow> permdoc \<times> world \<Rightarrow> permdoc \<times> world" where
  "clientMap_set kv pw =
     (let pd = fst pw;
          change = (fst kv, if map_of (clientMap pd) (fst kv) = None then ''add'' else ''update'');
          pd1 = pd\<lparr>clientMap := AList.update (fst kv) (snd kv) (clientMap pd)\<rparr>
      in (pd1, fold (\<lambda>ts. observe_callback ts (clientMap pd1) [change]) (observers pd1) (snd pw)))"

section \<open>The replication controller's handler\<close>

text \<open>
  Modelled from the spec: the enumeration \<^verbatim>\<open>DocLogAction\<close> (src/@types/DocLogAction) is
  not among the sources; an entry's action is Create, Update or Delete.
\<close>

datatype DocLogAction = Create | Update | Delete

text \<open>
  The \<^verbatim>\<open>next\<close> closure given to \<^verbatim>\<open>replicationController\<close> in \<^verbatim>\<open>onLoadDocument\<close>, with the
  \<open>ts\<close>, \<open>documentName\<close> and \<open>document\<close> it captured, applied to one doclog entry
  \<^verbatim>\<open>{ action, id, type }\<close>.
\<close>

definition "next" ::
  "env \<Rightarrow> string \<Rightarrow> string \<Rightarrow> DocLogAction \<times> string \<times> string \<Rightarrow> ydoc \<times> world
     \<Rightarrow> (error + unit) \<times> ydoc \<times> world" where
  "next e ts documentName entry dw =
     (let document = fst dw; w = snd dw; action = fst entry; ident = fst (snd entry);
          ty = snd (snd entry)
      in if action = Delete
         then (let docName = (if ty = ''thought'' then encodeThoughtDocumentName e ts ident
                              else encodeLexemeDocumentName e ts ident);
                   document1 = ydoc_destroy document
               in case map_of (ldbThoughtspaces w) ts of
                    None \<Rightarrow>
                      (Inr (), document1,
                       console_error [''LeveldbPersistence instance missing'', documentName] w)
                  | Some db \<Rightarrow> (Inr (), document1, clearDocument db docName w))
         else (Inr (), document, w))"

section \<open>onLoadDocument\<close>

text \<open>\<^verbatim>\<open>let db = registry.get(tsid); if (!db) { db = new ...(path); registry.set(tsid, db) }\<close>\<close>

definition open_thoughtspace :: "env \<Rightarrow> string \<Rightarrow> world \<Rightarrow> error + handle \<times> world" where
  "open_thoughtspace e ts w =
     (case map_of (ldbThoughtspaces w) ts of
        Some db \<Rightarrow> Inr (db, w)
      | None \<Rightarrow>
          (case new_store (path_join (thoughtsDbBasePath e) ts) w of
             Inl err \<Rightarrow> Inl err
           | Inr (db, w1) \<Rightarrow>
               Inr (db, w1\<lparr>ldbThoughtspaces := AList.update ts db (ldbThoughtspaces w1)\<rparr>)))"

definition open_doclog :: "env \<Rightarrow> string \<Rightarrow> world \<Rightarrow> error + handle \<times> world" where
  "open_doclog e ts w =
     (case map_of (ldbDoclogs w) ts of
        Some db \<Rightarrow> Inr (db, w)
      | None \<Rightarrow>
          (case new_store (path_join (doclogDbBasePath e) ts) w of
             Inl err \<Rightarrow> Inl err
           | Inr (db, w1) \<Rightarrow>
               Inr (db, w1\<lparr>ldbDoclogs := AList.update ts db (ldbDoclogs w1)\<rparr>)))"

definition open_replicationCursor :: "env \<Rightarrow> string \<Rightarrow> world \<Rightarrow> error + handle \<times> world" where
  "open_replicationCursor e ts w =
     (case map_of (ldbReplicationCursors w) ts of
        Some db \<Rightarrow> Inr (db, w)
      | None \<Rightarrow>
          (case new_store (path_join (replicationCursorDbBasePath e) ts) w of
             Inl err \<Rightarrow> Inl err
           | Inr (db, w1) \<Rightarrow>
               Inr (db, w1\<lparr>ldbReplicationCursors := AList.update ts db (ldbReplicationCursors w1)\<rparr>)))"

text \<open>
  The \<^verbatim>\<open>permissions\<close> branch once the client document is found: the server map is copied
  entry by entry into the client map, then the observer is installed.
\<close>

definition sync_permissions :: "string \<Rightarrow> string \<Rightarrow> permdoc \<Rightarrow> world \<Rightarrow> world" where
  "sync_permissions ts permissionsDocName permissionsClientDoc w =
     (let (pd1, w1) = fold clientMap_set (permissionsServerDoc w ts) (permissionsClientDoc, w);
          pd2 = pd1\<lparr>observers := observers pd1 @ [ts]\<rparr>
      in w1\<lparr>documents := AList.update permissionsDocName pd2 (documents w1)\<rparr>)"

text \<open>
  The hook from its call to its end, with nothing else running at its awaits. The result
  is the error the hook ends with, if any, the live document and the state.
\<close>

definition onLoadDocument ::
  "env \<Rightarrow> world \<Rightarrow> session_context \<Rightarrow> ydoc \<Rightarrow> string \<Rightarrow> (error + unit) \<times> ydoc \<times> world" where
  "onLoadDocument e w ctx document documentName =
     (let tok = token ctx;
          ts = tsid (parseDocumentName e documentName);
          ty = type (parseDocumentName e documentName);
          permissionsDocName = encodePermissionsDocumentName e ts;
          permission = map_of (permissionsServerDoc w ts) tok
      in if permission = None \<or> map_option role permission \<noteq> Some ''owner''
         then (Inr (), document, w)
         else if ty = ''permissions''
         then (case map_of (documents w) permissionsDocName of
                 None \<Rightarrow> (Inr (), document, w)
               | Some permissionsClientDoc \<Rightarrow>
                   (Inr (), document, sync_permissions ts permissionsDocName permissionsClientDoc w))
         else if ty = ''thought'' \<or> ty = ''lexeme''
         then (case open_thoughtspace e ts w of
                 Inl err \<Rightarrow> (Inl err, document, w)
               | Inr (db, w1) \<Rightarrow> bindState db documentName document w1)
         else if ty = ''doclog''
         then (case open_doclog e ts w of
                 Inl err \<Rightarrow> (Inl err, document, w)
               | Inr (db, w1) \<Rightarrow>
                   (case open_replicationCursor e ts w1 of
                      Inl err \<Rightarrow> (Inl err, document, w1)
                    | Inr (replicationCursorDb, w2) \<Rightarrow>
                        (case bindState db documentName document w2 of
                           (Inl err, document1, w3) \<Rightarrow> (Inl err, document1, w3)
                         | (Inr u, document1, w3) \<Rightarrow>
                             (Inr (),
                              document1\<lparr>controllers := controllers document1 @ [(ts, documentName)]\<rparr>,
                              w3))))
         else (Inr (), document, console_error [''Unrecognized doc type'', ty] w))"

section \<open>onDisconnect\<close>

text \<open>\<^verbatim>\<open>const db = registry.get(tsid); if (db) { db.destroy(); registry.delete(tsid) }\<close>\<close>

definition close_thoughtspace :: "string \<Rightarrow> world \<Rightarrow> world" where
  "close_thoughtspace ts w =
     (case map_of (ldbThoughtspaces w) ts of
        Some thoughtsDb \<Rightarrow>
          (destroy_store thoughtsDb w)\<lparr>ldbThoughtspaces := AList.delete ts (ldbThoughtspaces w)\<rparr>
      | None \<Rightarrow> w)"

definition close_doclog :: "string \<Rightarrow> world \<Rightarrow> world" where
  "close_doclog ts w =
     (case map_of (ldbDoclogs w) ts of
        Some doclogDb \<Rightarrow>
          (destroy_store doclogDb w)\<lparr>ldbDoclogs := AList.delete ts (ldbDoclogs w)\<rparr>
      | None \<Rightarrow> w)"

text \<open>
  The hook up to \<^verbatim>\<open>await replicationCursorDb.close()\<close>. The first component tells whether the
  hook is suspended there, with the cursor store closed and still in its registry, or has
  ended.
\<close>

definition onDisconnect_begin :: "env \<Rightarrow> world \<Rightarrow> string \<Rightarrow> bool \<times> world" where
  "onDisconnect_begin e w documentName =
     (let ts = tsid (parseDocumentName e documentName);
          ty = type (parseDocumentName e documentName)
      in if ty = ''doclog''
         then (let w2 = close_doclog ts (close_thoughtspace ts w)
               in case map_of (ldbReplicationCursors w2) ts of
                    Some replicationCursorDb \<Rightarrow> (True, destroy_store replicationCursorDb w2)
                  | None \<Rightarrow> (False, w2))
         else (False, w))"

text \<open>The rest of the hook, when the await is over: \<^verbatim>\<open>ldbReplicationCursors.delete(tsid)\<close>.\<close>

definition onDisconnect_resume :: "env \<Rightarrow> world \<Rightarrow> string \<Rightarrow> world" where
  "onDisconnect_resume e w documentName =
     w\<lparr>ldbReplicationCursors :=
         AList.delete (tsid (parseDocumentName e documentName)) (ldbReplicationCursors w)\<rparr>"

text \<open>The hook from its call to its end, with nothing else running at its await.\<close>

definition onDisconnect :: "env \<Rightarrow> world \<Rightarrow> string \<Rightarrow> world" where
  "onDisconnect e w documentName =
     (case onDisconnect_begin e w documentName of
        (True, w1) \<Rightarrow> onDisconnect_resume e w1 documentName
      | (False, w1) \<Rightarrow> w1)"

section \<open>The handler of the interrupt signal\<close>


section \<open>The states the server can be in\<close>


text \<open>The part of the state that concerns store handles.\<close>

definition handle_state ::
  "world \<Rightarrow> (string, handle) jsmap \<times> (string, handle) jsmap \<times> (string, handle) jsmap \<times> handle set \<times> nat" where
  "handle_state w =
     (ldbThoughtspaces w, ldbDoclogs w, ldbReplicationCursors w, open_handles w, next_hid w)"

text \<open>
  A registry is in order when its keys are distinct and the stores it holds were
  constructed before now. The handles are in order when the three registries are, the open
  stores were constructed before now, and no two of them hold the same directory.
\<close>

definition registry_ok :: "(string, handle) jsmap \<Rightarrow> nat \<Rightarrow> bool" where
  "registry_ok registry n \<longleftrightarrow>
     distinct (map fst registry) \<and> (\<forall>h \<in> snd ` set registry. hid h < n)"

definition handles_ok :: "world \<Rightarrow> bool" where
  "handles_ok w \<longleftrightarrow>
     registry_ok (ldbThoughtspaces w) (next_hid w) \<and>
     registry_ok (ldbDoclogs w) (next_hid w) \<and>
     registry_ok (ldbReplicationCursors w) (next_hid w) \<and>
     (\<forall>h \<in> open_handles w. hid h < next_hid w) \<and>
     inj_on location (open_handles w)"

section \<open>A concrete environment\<close>

text \<open>
  A codec that separates tenant, kind and entity by slashes, the default database
  directory, and the state of a server that begins to listen with nothing on disk. The
  definitions above are evaluated on them.
\<close>

definition sample_env :: env where
  "sample_env =
     \<lparr>parseDocumentName = (\<lambda>s.
          \<lparr>tsid = takeWhile (\<lambda>c. c \<noteq> CHR ''/'') s,
           type = takeWhile (\<lambda>c. c \<noteq> CHR ''/'') (drop 1 (dropWhile (\<lambda>c. c \<noteq> CHR ''/'') s))\<rparr>),
      encodeThoughtDocumentName = (\<lambda>ts i. ts @ ''/thought/'' @ i),
      encodeLexemeDocumentName = (\<lambda>ts k. ts @ ''/lexeme/'' @ k),
      encodePermissionsDocumentName = (\<lambda>ts. ts @ ''/permissions''),
      toISOString = (\<lambda>t. ''1970-01-01T00:00:00.000Z''),
      dbDir = ''db''\<rparr>"

definition sample_world :: world where
  "sample_world =
     \<lparr>permissionsServerDoc = (\<lambda>ts. []), documents = [], ldbThoughtspaces = [],
      ldbDoclogs = [], ldbReplicationCursors = [], disk = (\<lambda>dir docName. []),
      open_handles = {}, next_hid = 0, console = [], now = 0\<rparr>"

text \<open>The sample state once token abc123 owns tenant ts1.\<close>

definition sample_owned :: world where
  "sample_owned = sample_world\<lparr>permissionsServerDoc := (\<lambda>ts. [])(''ts1'' :=
      [(''abc123'', \<lparr>accessed = 0, created = 0, name = ''Owner'', role = ''owner''\<rparr>)])\<rparr>"

text \<open>
  A live document holding two facts, the content store of tenant ts1, and the sample state
  once abc123 has loaded thought T1 of ts1 with that document.
\<close>

definition sample_document :: ydoc where
  "sample_document = \<lparr>ystate = {1, 2}, subscribers = [], controllers = [], destroyed = False\<rparr>"

definition sample_store :: handle where
  "sample_store = \<lparr>hid = 0, location = ''db/thoughts/ts1''\<rparr>"


text \<open>
  A tenant with two owners on the server, a client map, and one change event on it with a
  removal, an addition, an update and an update of a key the client map does not hold.
\<close>

definition sample_shared :: world where
  "sample_shared = sample_world\<lparr>permissionsServerDoc := (\<lambda>ts. [])(''ts1'' :=
      [(''abc123'', \<lparr>accessed = 0, created = 0, name = ''Owner'', role = ''owner''\<rparr>),
       (''old'', \<lparr>accessed = 1, created = 1, name = ''Old'', role = ''owner''\<rparr>)])\<rparr>"

definition sample_clientMap :: "(string, Share) jsmap" where
  "sample_clientMap =
     [(''abc123'', \<lparr>accessed = 7, created = 7, name = ''Owner'', role = ''owner''\<rparr>),
      (''guest'', \<lparr>accessed = 8, created = 8, name = ''Guest'', role = ''owner''\<rparr>)]"

definition sample_changes :: "(string \<times> string) list" where
  "sample_changes = [(''old'', ''delete''), (''guest'', ''add''), (''abc123'', ''update''), (''ghost'', ''update'')]"








section \<open>Properties of onAuthenticate\<close>

lemma onAuthenticate_empty:
  assumes "permissionsServerDoc w (tsid (parseDocumentName e documentName)) = []"
  shows "onAuthenticate e w tok documentName =
     (Inr \<lparr>token = tok\<rparr>,
      (log e [''assigning owner '' @ mask tok @ '' to new thoughtspace ''
                @ tsid (parseDocumentName e documentName)] w)
      \<lparr>permissionsServerDoc := (permissionsServerDoc w)
         (tsid (parseDocumentName e documentName) :=
            [(tok, \<lparr>accessed = now w, created = now w, name = ''Owner'', role = ''owner''\<rparr>)])\<rparr>)"
  using assms by (simp add: onAuthenticate_def Let_def log_def timestamp_def)

lemma onAuthenticate_nonempty:
  assumes "permissionsServerDoc w (tsid (parseDocumentName e documentName)) \<noteq> []"
  shows "onAuthenticate e w tok documentName =
     (if map_option role (map_of (permissionsServerDoc w (tsid (parseDocumentName e documentName))) tok)
         = Some ''owner''
      then (Inr \<lparr>token = tok\<rparr>, w) else (Inl (Error ''Not authorized''), w))"
  using assms by (simp add: onAuthenticate_def Let_def)

text \<open>
  C1. \<^verbatim>\<open>onAuthenticate(token, documentName)\<close>, with \<open>ts\<close> the tsid decoded from the document
  name. If the server-side permission map of \<open>ts\<close> is empty, a Share with role owner, name
  Owner and both timestamps the current time is stored for the token, and the call returns
  \<^verbatim>\<open>{ token }\<close>. If the map is not empty, the call returns \<^verbatim>\<open>{ token }\<close> exactly when the
  Share stored for the token has role owner; otherwise it throws \<^verbatim>\<open>Not authorized\<close>; in
  both cases nothing is changed.
\<close>

theorem onAuthenticate_bootstrap_or_owner:
  "(permissionsServerDoc w (tsid (parseDocumentName e documentName)) = [] \<longrightarrow>
      fst (onAuthenticate e w tok documentName) = Inr \<lparr>token = tok\<rparr> \<and>
      permissionsServerDoc (snd (onAuthenticate e w tok documentName)) =
        (permissionsServerDoc w)(tsid (parseDocumentName e documentName) :=
           [(tok, \<lparr>accessed = timestamp w, created = timestamp w, name = ''Owner'', role = ''owner''\<rparr>)]))
   \<and> (permissionsServerDoc w (tsid (parseDocumentName e documentName)) \<noteq> [] \<longrightarrow>
        snd (onAuthenticate e w tok documentName) = w \<and>
        (fst (onAuthenticate e w tok documentName) = Inr \<lparr>token = tok\<rparr> \<longleftrightarrow>
           (\<exists>share. map_of (permissionsServerDoc w (tsid (parseDocumentName e documentName))) tok
                      = Some share \<and> role share = ''owner'')) \<and>
        (fst (onAuthenticate e w tok documentName) \<noteq> Inr \<lparr>token = tok\<rparr> \<longrightarrow>
           fst (onAuthenticate e w tok documentName) = Inl (Error ''Not authorized'')))"
proof (cases "permissionsServerDoc w (tsid (parseDocumentName e documentName)) = []")
  case True
  then show ?thesis
    by (simp add: onAuthenticate_empty log_def timestamp_def)
next
  case False
  then show ?thesis
    by (auto simp: onAuthenticate_nonempty)
qed

lemma sample_parse_permissions:
  "parseDocumentName sample_env ''ts1/permissions'' = \<lparr>tsid = ''ts1'', type = ''permissions''\<rparr>"
  by (simp add: sample_env_def)

theorem onAuthenticate_bootstrap_or_owner_witness:
  "fst (onAuthenticate sample_env sample_world ''abc123'' ''ts1/permissions'') = Inr \<lparr>token = ''abc123''\<rparr>
   \<and> permissionsServerDoc (snd (onAuthenticate sample_env sample_world ''abc123'' ''ts1/permissions''))
       = permissionsServerDoc sample_owned
   \<and> fst (onAuthenticate sample_env sample_owned ''xyz789'' ''ts1/permissions'') = Inl (Error ''Not authorized'')
   \<and> onAuthenticate sample_env sample_owned ''abc123'' ''ts1/permissions'' = (Inr \<lparr>token = ''abc123''\<rparr>, sample_owned)"
proof -
  have empty: "permissionsServerDoc sample_world (tsid (parseDocumentName sample_env ''ts1/permissions'')) = []"
    by (simp add: sample_world_def)
  have owned: "permissionsServerDoc sample_owned (tsid (parseDocumentName sample_env ''ts1/permissions''))
      = [(''abc123'', \<lparr>accessed = 0, created = 0, name = ''Owner'', role = ''owner''\<rparr>)]"
    by (simp add: sample_owned_def sample_parse_permissions)
  have t0: "timestamp sample_world = 0"
    by (simp add: timestamp_def sample_world_def)
  have first: "fst (onAuthenticate sample_env sample_world ''abc123'' ''ts1/permissions'') = Inr \<lparr>token = ''abc123''\<rparr>
      \<and> permissionsServerDoc (snd (onAuthenticate sample_env sample_world ''abc123'' ''ts1/permissions''))
       = permissionsServerDoc sample_owned"
    using onAuthenticate_bootstrap_or_owner
            [of sample_world sample_env "''ts1/permissions''" "''abc123''"] empty
    by (simp add: timestamp_def sample_parse_permissions sample_owned_def sample_world_def)
  have second: "fst (onAuthenticate sample_env sample_owned ''xyz789'' ''ts1/permissions'') = Inl (Error ''Not authorized'')"
    using onAuthenticate_bootstrap_or_owner
            [of sample_owned sample_env "''ts1/permissions''" "''xyz789''"]
    by (simp add: owned)
  have third: "onAuthenticate sample_env sample_owned ''abc123'' ''ts1/permissions'' = (Inr \<lparr>token = ''abc123''\<rparr>, sample_owned)"
    using onAuthenticate_bootstrap_or_owner
            [of sample_owned sample_env "''ts1/permissions''" "''abc123''"]
    by (simp add: owned prod_eq_iff)
  from first second third show ?thesis by simp
qed

section \<open>Store handles: what each operation leaves alone\<close>


lemma handle_state_fields:
  assumes "handle_state w' = handle_state w"
  shows "ldbThoughtspaces w' = ldbThoughtspaces w" and "ldbDoclogs w' = ldbDoclogs w"
    and "ldbReplicationCursors w' = ldbReplicationCursors w" and "open_handles w' = open_handles w"
    and "next_hid w' = next_hid w"
  using assms by (simp_all add: handle_state_def)

lemma handle_state_transaction_failed: "handle_state (transaction_failed w) = handle_state w"
  by (simp add: transaction_failed_def console_warn_def handle_state_def)


lemma handle_state_storeUpdate: "handle_state (storeUpdate db docName u w) = handle_state w"
  by (simp add: storeUpdate_def handle_state_transaction_failed) (simp add: handle_state_def)

lemma handle_state_clearDocument: "handle_state (clearDocument db docName w) = handle_state w"
  by (simp add: clearDocument_def handle_state_transaction_failed) (simp add: handle_state_def)

lemma handle_state_on_update: "handle_state (on_update u sub w) = handle_state w"
  by (simp add: on_update_def handle_state_storeUpdate)




lemma handle_state_console_error: "handle_state (console_error args w) = handle_state w"
  by (simp add: console_error_def handle_state_def)

lemma handle_state_log: "handle_state (log e args w) = handle_state w"
  by (simp add: log_def handle_state_def)


lemma handle_state_observe_callback: "handle_state (observe_callback ts cm changes w) = handle_state w"
  by (simp add: observe_callback_def handle_state_def)

lemma handle_state_clientMap_set: "handle_state (snd (clientMap_set kv pw)) = handle_state (snd pw)"
proof -
  have "handle_state (fold (\<lambda>ts. observe_callback ts cm chs) obs w) = handle_state w" for cm chs obs w
    by (induction obs arbitrary: w) (simp_all add: handle_state_observe_callback)
  then show ?thesis by (simp add: clientMap_set_def Let_def)
qed

lemma handle_state_sync_permissions:
  "handle_state (sync_permissions ts permissionsDocName pd w) = handle_state w"
proof -
  have "handle_state (snd (fold clientMap_set kvs pw)) = handle_state (snd pw)" for kvs pw
    by (induction kvs arbitrary: pw) (simp_all add: handle_state_clientMap_set)
  from this [of "permissionsServerDoc w ts" "(pd, w)"] show ?thesis
    by (simp add: sync_permissions_def split_beta Let_def handle_state_def)
qed



lemmas sync_permissions_fields = handle_state_fields [OF handle_state_sync_permissions]

lemmas console_error_fields = handle_state_fields [OF handle_state_console_error]

lemmas clearDocument_fields = handle_state_fields [OF handle_state_clearDocument]

section \<open>The registries stay in order\<close>



lemma registry_ok_delete:
  assumes "registry_ok r n"
  shows "registry_ok (AList.delete ts r) n"
proof -
  have "set (AList.delete ts r) \<subseteq> set r"
    by (auto simp: AList.delete_eq)
  with assms show ?thesis
    by (auto simp: registry_ok_def distinct_delete)
qed








lemma handles_ok_destroy_store: "handles_ok w \<Longrightarrow> handles_ok (destroy_store h w)"
  by (auto simp: handles_ok_def destroy_store_def intro: inj_on_diff)

lemma handles_ok_close_thoughtspace: "handles_ok w \<Longrightarrow> handles_ok (close_thoughtspace ts w)"
  by (auto simp: handles_ok_def close_thoughtspace_def destroy_store_def
        intro: inj_on_diff registry_ok_delete split: option.splits)

lemma handles_ok_close_doclog: "handles_ok w \<Longrightarrow> handles_ok (close_doclog ts w)"
  by (auto simp: handles_ok_def close_doclog_def destroy_store_def
        intro: inj_on_diff registry_ok_delete split: option.splits)

lemma handles_ok_onDisconnect_begin: "handles_ok w \<Longrightarrow> handles_ok (snd (onDisconnect_begin e w documentName))"
  by (simp add: onDisconnect_begin_def Let_def handles_ok_close_thoughtspace handles_ok_close_doclog
        handles_ok_destroy_store split: option.splits)

lemma handles_ok_onDisconnect_resume: "handles_ok w \<Longrightarrow> handles_ok (onDisconnect_resume e w documentName)"
  by (auto simp: handles_ok_def onDisconnect_resume_def intro: registry_ok_delete)

lemma handles_ok_onDisconnect: "handles_ok w \<Longrightarrow> handles_ok (onDisconnect e w documentName)"
  using handles_ok_onDisconnect_begin [of w e documentName]
  by (auto simp: onDisconnect_def handles_ok_onDisconnect_resume split: prod.splits bool.splits)


lemma registries_fold_destroy_store:
  "ldbThoughtspaces (fold destroy_store hs w) = ldbThoughtspaces w"
  "ldbDoclogs (fold destroy_store hs w) = ldbDoclogs w"
  "ldbReplicationCursors (fold destroy_store hs w) = ldbReplicationCursors w"
  by (induction hs arbitrary: w) (simp_all add: destroy_store_def)

lemma open_handles_fold_destroy_store:
  "open_handles (fold destroy_store hs w) = open_handles w - set hs"
  by (induction hs arbitrary: w) (auto simp: destroy_store_def)





section \<open>The sample states\<close>

lemma sample_parse_thought:
  "parseDocumentName sample_env ''ts1/thought/T1'' = \<lparr>tsid = ''ts1'', type = ''thought''\<rparr>"
  by (simp add: sample_env_def)















section \<open>The authorisation gate of onLoadDocument and the delete handler\<close>

lemma onLoadDocument_unauthorized:
  assumes "map_of (permissionsServerDoc w (tsid (parseDocumentName e documentName))) (token ctx) = None
     \<or> map_option role (map_of (permissionsServerDoc w (tsid (parseDocumentName e documentName))) (token ctx))
         \<noteq> Some ''owner''"
  shows "onLoadDocument e w ctx document documentName = (Inr (), document, w)"
  using assms by (simp add: onLoadDocument_def Let_def)

text \<open>
  C10. \<^verbatim>\<open>onLoadDocument\<close> for a token whose Share in the tenant's server-side permission
  map is absent, or has a role other than owner, returns at once: the result is the
  document and the whole state as they were, so no store is opened or registered, nothing
  is bound, no observer or replication controller is installed, and the permission map and
  the registries are unchanged.
\<close>

theorem onLoadDocument_not_owner_returns:
  assumes "map_of (permissionsServerDoc w (tsid (parseDocumentName e documentName))) (token ctx) = None
     \<or> (\<exists>share. map_of (permissionsServerDoc w (tsid (parseDocumentName e documentName))) (token ctx)
                   = Some share \<and> role share \<noteq> ''owner'')"
  shows "onLoadDocument e w ctx document documentName = (Inr (), document, w)"
proof (rule onLoadDocument_unauthorized)
  from assms show "map_of (permissionsServerDoc w (tsid (parseDocumentName e documentName))) (token ctx) = None
     \<or> map_option role (map_of (permissionsServerDoc w (tsid (parseDocumentName e documentName))) (token ctx))
         \<noteq> Some ''owner''"
    by auto
qed

theorem onLoadDocument_not_owner_returns_witness:
  "onLoadDocument sample_env sample_owned \<lparr>token = ''xyz789''\<rparr> sample_document ''ts1/thought/T1''
     = (Inr (), sample_document, sample_owned)
   \<and> onLoadDocument sample_env
        (sample_owned\<lparr>permissionsServerDoc := (\<lambda>ts. [(''xyz789'',
            \<lparr>accessed = 0, created = 0, name = ''Guest'', role = ''viewer''\<rparr>)])\<rparr>)
        \<lparr>token = ''xyz789''\<rparr> sample_document ''ts1/thought/T1''
     = (Inr (), sample_document,
        sample_owned\<lparr>permissionsServerDoc := (\<lambda>ts. [(''xyz789'',
            \<lparr>accessed = 0, created = 0, name = ''Guest'', role = ''viewer''\<rparr>)])\<rparr>)"
proof -
  have absent: "map_of (permissionsServerDoc sample_owned (tsid (parseDocumentName sample_env ''ts1/thought/T1'')))
      (token \<lparr>token = ''xyz789''\<rparr>) = None"
    by (simp add: sample_parse_thought sample_owned_def)
  have viewer: "\<exists>share. map_of (permissionsServerDoc
        (sample_owned\<lparr>permissionsServerDoc := (\<lambda>ts. [(''xyz789'',
            \<lparr>accessed = 0, created = 0, name = ''Guest'', role = ''viewer''\<rparr>)])\<rparr>)
        (tsid (parseDocumentName sample_env ''ts1/thought/T1''))) (token \<lparr>token = ''xyz789''\<rparr>) = Some share
      \<and> role share \<noteq> ''owner''"
    by simp
  show ?thesis
    using onLoadDocument_not_owner_returns [OF disjI1, OF absent]
      onLoadDocument_not_owner_returns [OF disjI2, OF viewer]
    by simp
qed

lemma next_delete_document:
  "fst (snd (next e ts documentName (Delete, ident, ty) (document, w))) = ydoc_destroy document"
  by (simp add: next_def Let_def split: option.splits)

lemma next_delete_missing:
  assumes "map_of (ldbThoughtspaces w) ts = None"
  shows "next e ts documentName (Delete, ident, ty) (document, w) =
     (Inr (), ydoc_destroy document,
      console_error [''LeveldbPersistence instance missing'', documentName] w)"
  using assms by (simp add: next_def Let_def)


text \<open>
  C9. For every doclog entry with action Delete, whatever the state, the handler \<open>next\<close>
  leaves the doclog document it captured destroyed, its update handlers dropped. The
  document is destroyed before the content store is looked up: it is destroyed also when
  no content store is registered for the tenant and the clear is skipped.
\<close>

theorem next_delete_destroys_document:
  "fst (snd (next e ts documentName (Delete, ident, ty) (document, w))) = ydoc_destroy document
   \<and> destroyed (fst (snd (next e ts documentName (Delete, ident, ty) (document, w))))
   \<and> subscribers (fst (snd (next e ts documentName (Delete, ident, ty) (document, w)))) = []
   \<and> (map_of (ldbThoughtspaces w) ts = None \<longrightarrow>
        next e ts documentName (Delete, ident, ty) (document, w) =
          (Inr (), ydoc_destroy document,
           console_error [''LeveldbPersistence instance missing'', documentName] w))"
  by (simp add: next_delete_document next_delete_missing ydoc_destroy_def)

theorem next_delete_destroys_document_witness:
  "next sample_env ''ts1'' ''ts1/doclog'' (Delete, ''T1'', ''thought'')
      (sample_document\<lparr>subscribers := [(sample_store, ''ts1/doclog'')]\<rparr>, sample_owned)
   = (Inr (), sample_document\<lparr>destroyed := True\<rparr>,
      sample_owned\<lparr>console := [(''error'', [''LeveldbPersistence instance missing'', ''ts1/doclog''])]\<rparr>)"
proof -
  have "map_of (ldbThoughtspaces sample_owned) ''ts1'' = None"
    by (simp add: sample_owned_def sample_world_def)
  with next_delete_destroys_document
         [of sample_env "''ts1''" "''ts1/doclog''" "''T1''" "''thought''"
             "sample_document\<lparr>subscribers := [(sample_store, ''ts1/doclog'')]\<rparr>" sample_owned]
  show ?thesis
    by (simp add: ydoc_destroy_def console_error_def sample_document_def sample_owned_def sample_world_def)
qed

section \<open>The delete handler and the content store\<close>










section \<open>Permission reconciliation: the observer of the client map\<close>

lemma observe_change_other:
  "key \<noteq> fst change \<Longrightarrow> map_of (observe_change cm change sm) key = map_of sm key"
  by (simp add: observe_change_def Let_def update_conv' delete_conv' split: option.splits)

lemma fold_observe_change_other:
  "key \<notin> fst ` set changes \<Longrightarrow> map_of (fold (observe_change cm) changes sm) key = map_of sm key"
  by (induction changes arbitrary: sm) (simp_all add: observe_change_other)

lemma fold_observe_change_at:
  assumes "distinct (map fst changes)" and "(key, action) \<in> set changes"
  shows "\<exists>sm'. map_of sm' key = map_of sm key
            \<and> map_of (fold (observe_change cm) changes sm) key
                = map_of (observe_change cm (key, action) sm') key"
  using assms
proof (induction changes arbitrary: sm)
  case Nil
  then show ?case by simp
next
  case (Cons change changes)
  show ?case
  proof (cases "change = (key, action)")
    case True
    with Cons.prems have "key \<notin> fst ` set changes" by auto
    then have "map_of (fold (observe_change cm) changes (observe_change cm (key, action) sm)) key
        = map_of (observe_change cm (key, action) sm) key"
      by (rule fold_observe_change_other)
    with True show ?thesis by auto
  next
    case False
    with Cons.prems have in_rest: "(key, action) \<in> set changes" and "distinct (map fst changes)"
      and "fst change \<noteq> key"
      by (auto simp: image_iff)
    from Cons.IH [OF this(2) in_rest, of "observe_change cm change sm"]
    obtain sm' where "map_of sm' key = map_of (observe_change cm change sm) key"
      and "map_of (fold (observe_change cm) changes (observe_change cm change sm)) key
            = map_of (observe_change cm (key, action) sm') key"
      by blast
    moreover have "map_of (observe_change cm change sm) key = map_of sm key"
      using \<open>fst change \<noteq> key\<close> by (simp add: observe_change_other)
    ultimately show ?thesis by auto
  qed
qed

lemma observe_change_result:
  assumes "map_of sm key = serverShare"
  shows "map_of (observe_change cm (key, action) sm) key =
     (if action = ''delete'' then None
      else case map_of cm key of
             None \<Rightarrow> serverShare
           | Some clientShare \<Rightarrow>
               if Some (name clientShare) \<noteq> map_option name serverShare
                  \<or> Some (role clientShare) \<noteq> map_option role serverShare
               then Some clientShare else serverShare)"
  unfolding assms [symmetric]
  by (simp add: observe_change_def Let_def update_conv' delete_conv' split: option.splits)

lemma observe_callback_at:
  assumes "distinct (map fst changes)" and "(key, action) \<in> set changes"
  shows "map_of (permissionsServerDoc (observe_callback ts cm changes w) ts) key =
     (if action = ''delete'' then None
      else case map_of cm key of
             None \<Rightarrow> map_of (permissionsServerDoc w ts) key
           | Some clientShare \<Rightarrow>
               if Some (name clientShare) \<noteq> map_option name (map_of (permissionsServerDoc w ts) key)
                  \<or> Some (role clientShare) \<noteq> map_option role (map_of (permissionsServerDoc w ts) key)
               then Some clientShare else map_of (permissionsServerDoc w ts) key)"
proof -
  from fold_observe_change_at [OF assms, of "permissionsServerDoc w ts" cm]
  obtain sm' where same: "map_of sm' key = map_of (permissionsServerDoc w ts) key"
    and "map_of (fold (observe_change cm) changes (permissionsServerDoc w ts)) key
                = map_of (observe_change cm (key, action) sm') key"
    by blast
  then show ?thesis
    by (simp add: observe_callback_def observe_change_result [OF same])
qed

text \<open>
  C4. One change event on the client permission map of a tenant, its changed keys distinct
  as the keys of a \<^verbatim>\<open>Map\<close> are. For each changed key: a removal leaves the server map
  without the key; a change that is not a removal, with no Share under the key in the
  client map, leaves the server entry as it was; a change that is not a removal, with a
  client Share, stores the client Share on the server when it differs from the server
  Share in name or role (or the server has none), and otherwise leaves the server entry as
  it was, timestamps not being compared. Keys that did not change and the maps of other
  tenants are untouched.
\<close>

theorem observe_callback_reconciles:
  assumes "distinct (map fst changes)" and "(key, action) \<in> set changes"
  shows "(action = ''delete'' \<longrightarrow>
            map_of (permissionsServerDoc (observe_callback ts cm changes w) ts) key = None)
       \<and> (action \<noteq> ''delete'' \<longrightarrow> map_of cm key = None \<longrightarrow>
            map_of (permissionsServerDoc (observe_callback ts cm changes w) ts) key
              = map_of (permissionsServerDoc w ts) key)
       \<and> (\<forall>clientShare. action \<noteq> ''delete'' \<longrightarrow> map_of cm key = Some clientShare \<longrightarrow>
            map_of (permissionsServerDoc (observe_callback ts cm changes w) ts) key
              = (if Some (name clientShare) \<noteq> map_option name (map_of (permissionsServerDoc w ts) key)
                    \<or> Some (role clientShare) \<noteq> map_option role (map_of (permissionsServerDoc w ts) key)
                 then Some clientShare
                 else map_of (permissionsServerDoc w ts) key))
       \<and> (\<forall>other. other \<notin> fst ` set changes \<longrightarrow>
            map_of (permissionsServerDoc (observe_callback ts cm changes w) ts) other
              = map_of (permissionsServerDoc w ts) other)
       \<and> (\<forall>ts'. ts' \<noteq> ts \<longrightarrow>
            permissionsServerDoc (observe_callback ts cm changes w) ts' = permissionsServerDoc w ts')"
  by (simp add: observe_callback_at [OF assms])
     (simp add: observe_callback_def fold_observe_change_other)

theorem observe_callback_reconciles_witness:
  "map_of (permissionsServerDoc (observe_callback ''ts1'' sample_clientMap sample_changes sample_shared) ''ts1'') ''old''
     = None
   \<and> map_of (permissionsServerDoc (observe_callback ''ts1'' sample_clientMap sample_changes sample_shared) ''ts1'') ''guest''
     = Some \<lparr>accessed = 8, created = 8, name = ''Guest'', role = ''owner''\<rparr>
   \<and> map_of (permissionsServerDoc (observe_callback ''ts1'' sample_clientMap sample_changes sample_shared) ''ts1'') ''abc123''
     = Some \<lparr>accessed = 0, created = 0, name = ''Owner'', role = ''owner''\<rparr>
   \<and> map_of (permissionsServerDoc (observe_callback ''ts1'' sample_clientMap sample_changes sample_shared) ''ts1'') ''ghost''
     = None"
proof -
  have keys: "distinct (map fst sample_changes)"
    by (simp add: sample_changes_def)
  have changed: "(''old'', ''delete'') \<in> set sample_changes" "(''guest'', ''add'') \<in> set sample_changes"
    "(''abc123'', ''update'') \<in> set sample_changes" "(''ghost'', ''update'') \<in> set sample_changes"
    by (simp_all add: sample_changes_def)
  have server: "map_of (permissionsServerDoc sample_shared ''ts1'') ''old''
        = Some \<lparr>accessed = 1, created = 1, name = ''Old'', role = ''owner''\<rparr>"
    "map_of (permissionsServerDoc sample_shared ''ts1'') ''guest'' = None"
    "map_of (permissionsServerDoc sample_shared ''ts1'') ''abc123''
        = Some \<lparr>accessed = 0, created = 0, name = ''Owner'', role = ''owner''\<rparr>"
    "map_of (permissionsServerDoc sample_shared ''ts1'') ''ghost'' = None"
    by (simp_all add: sample_shared_def)
  have client: "map_of sample_clientMap ''guest''
        = Some \<lparr>accessed = 8, created = 8, name = ''Guest'', role = ''owner''\<rparr>"
    "map_of sample_clientMap ''abc123''
        = Some \<lparr>accessed = 7, created = 7, name = ''Owner'', role = ''owner''\<rparr>"
    "map_of sample_clientMap ''ghost'' = None"
    by (simp_all add: sample_clientMap_def)
  show ?thesis
    using observe_callback_reconciles [OF keys changed(1), of "''ts1''" sample_clientMap sample_shared]
      observe_callback_reconciles [OF keys changed(2), of "''ts1''" sample_clientMap sample_shared]
      observe_callback_reconciles [OF keys changed(3), of "''ts1''" sample_clientMap sample_shared]
      observe_callback_reconciles [OF keys changed(4), of "''ts1''" sample_clientMap sample_shared]
    by (simp add: server client)
qed

section \<open>Properties of bindState\<close>



lemma open_handles_on_update: "open_handles (on_update u sub w) = open_handles w"
  using handle_state_on_update [of u sub w] by (simp add: handle_state_def)
















section \<open>Store handles are reused\<close>





lemma open_replicationCursor_registered:
  "map_of (ldbReplicationCursors w) ts = Some h \<Longrightarrow> open_replicationCursor e ts w = Inr (h, w)"
  by (simp add: open_replicationCursor_def)












section \<open>Properties of onDisconnect\<close>






























end
